theory Spec2Isabelle
  imports Complex_Main "HOL-Library.Log_Nat"
begin

section \<open>Python numbers\<close>

text \<open>
  \<^verbatim>\<open>create_square_icon\<close> mixes Python integers and floats:
  \<^verbatim>\<open>scale = size / min(width, height)\<close> is a true division of two integers, whose result
  is the quotient rounded once to a binary64 float; \<^verbatim>\<open>width * scale\<close> converts the
  integer to a float and multiplies, rounding again; \<^verbatim>\<open>int(...)\<close> truncates toward zero.
  A float is modelled by the rational number it denotes, and every operation by the exact
  result followed by \<open>fl\<close>, rounding to 53 significant bits, ties to even. The exponent
  range is not modelled: image dimensions stay far inside it.
\<close>

definition pow2 :: "int \<Rightarrow> rat" where
  "pow2 e = (if 0 \<le> e then 2 ^ nat e else 1 / 2 ^ nat (- e))"

text \<open>The binary exponent of a positive rational: \<open>pow2 (expo x) \<le> x < pow2 (expo x + 1)\<close>.\<close>

definition expo :: "rat \<Rightarrow> int" where
  "expo x = (let (p, q) = quotient_of x;
                 d = int (floorlog 2 (nat p)) - int (floorlog 2 (nat q))
             in if pow2 d \<le> x then d else d - 1)"

text \<open>Round to the nearest integer, ties to the even one.\<close>

definition rne :: "rat \<Rightarrow> int" where
  "rne y = (let f = \<lfloor>y\<rfloor>; r = y - of_int f in
            if r < 1 / 2 then f else if 1 / 2 < r then f + 1
            else if even f then f else f + 1)"

definition fl :: "rat \<Rightarrow> rat" where
  "fl x = (if x = 0 then 0
           else let a = \<bar>x\<bar>; e = expo a - 52; m = rne (a / pow2 e)
                in sgn x * of_int m * pow2 e)"

datatype error =
    FileNotFoundError | IsADirectoryError | NotADirectoryError | FileExistsError
  | UnidentifiedImageError | ZeroDivisionError | ValueError | OSError

text \<open>\<^verbatim>\<open>a / b\<close> on two integers.\<close>

definition truediv :: "int \<Rightarrow> int \<Rightarrow> error + rat" where
  "truediv a b = (if b = 0 then Inl ZeroDivisionError else Inr (fl (of_int a / of_int b)))"

text \<open>\<^verbatim>\<open>n * x\<close> on an integer and a float.\<close>

definition int_mul_float :: "int \<Rightarrow> rat \<Rightarrow> rat" where
  "int_mul_float n x = fl (fl (of_int n) * x)"

text \<open>\<^verbatim>\<open>int(x)\<close> on a float.\<close>

definition int_of_float :: "rat \<Rightarrow> int" where
  "int_of_float x = (if 0 \<le> x then \<lfloor>x\<rfloor> else \<lceil>x\<rceil>)"

text \<open>Python's \<^verbatim>\<open>round(x)\<close> on a float, which the specification names.\<close>

definition py_round :: "rat \<Rightarrow> int" where
  "py_round x = rne x"

section \<open>Paths and the filesystem\<close>

text \<open>\<^verbatim>\<open>os.path.join\<close> and \<^verbatim>\<open>os.path.dirname\<close> of \<^verbatim>\<open>posixpath\<close>.\<close>

definition join :: "string \<Rightarrow> string \<Rightarrow> string" where
  "join a b = (if take 1 b = ''/'' then b
               else if a = [] \<or> last a = CHR ''/'' then a @ b
               else a @ ''/'' @ b)"

definition dirname :: "string \<Rightarrow> string" where
  "dirname p = (let head = rev (dropWhile (\<lambda>c. c \<noteq> CHR ''/'') (rev p))
                in if filter (\<lambda>c. c \<noteq> CHR ''/'') head \<noteq> []
                   then rev (dropWhile (\<lambda>c. c = CHR ''/'') (rev head)) else head)"

datatype entry = File "nat list" | Dir

type_synonym filesystem = "string \<Rightarrow> entry option"

definition path_exists :: "filesystem \<Rightarrow> string \<Rightarrow> bool" where
  "path_exists fs p = (fs p \<noteq> None)"

text \<open>
  \<^verbatim>\<open>os.makedirs(p, exist_ok=True)\<close>: an existing directory is accepted, an existing
  file is an error. Ancestors are not tracked: the filesystem is a flat table of paths.
\<close>

definition makedirs :: "filesystem \<Rightarrow> string \<Rightarrow> error + filesystem" where
  "makedirs fs p = (case fs p of
       Some (File bs) \<Rightarrow> Inl FileExistsError
     | Some Dir \<Rightarrow> Inr fs
     | None \<Rightarrow> Inr (fs(p \<mapsto> Dir)))"

definition under :: "string \<Rightarrow> string \<Rightarrow> bool" where
  "under d p = (take (length d + 1) p = d @ ''/'')"

text \<open>\<^verbatim>\<open>shutil.rmtree(d)\<close>: the directory and everything below it disappear.\<close>

definition rmtree :: "filesystem \<Rightarrow> string \<Rightarrow> error + filesystem" where
  "rmtree fs d = (case fs d of
       None \<Rightarrow> Inl FileNotFoundError
     | Some (File bs) \<Rightarrow> Inl NotADirectoryError
     | Some Dir \<Rightarrow> Inr (\<lambda>p. if p = d \<or> under d p then None else fs p))"

section \<open>Images\<close>

text \<open>
  A PIL image as the program sees it: its mode, its size and its pixels, a pixel being the
  list of its band values. The pixel table is defined exactly on the image's extent.
\<close>

type_synonym pixel = "nat list"

record image =
  im_mode :: string
  im_size :: "int \<times> int"
  im_data :: "int \<times> int \<Rightarrow> pixel option"

definition in_extent :: "int \<times> int \<Rightarrow> int \<times> int \<Rightarrow> bool" where
  "in_extent sz xy = (0 \<le> fst xy \<and> fst xy < fst sz \<and> 0 \<le> snd xy \<and> snd xy < snd sz)"

definition wf_image :: "image \<Rightarrow> bool" where
  "wf_image img = (dom (im_data img) = Collect (in_extent (im_size img)))"

text \<open>
  What the program takes from outside itself: the PNG decoder behind \<^verbatim>\<open>Image.open\<close>, the
  pixel conversion behind \<^verbatim>\<open>convert\<close>, the Lanczos filter behind \<^verbatim>\<open>resize\<close>, the PNG
  encoder behind \<^verbatim>\<open>save\<close>, and the \<^verbatim>\<open>iconutil\<close> command. The command either cannot be
  started, or exits with a return code, having written a compiled icon or not.
\<close>

datatype proc = Raised error | Completed int "nat list option"

record env =
  png_decode :: "nat list \<Rightarrow> image option"
  convert_data :: "image \<Rightarrow> string \<Rightarrow> int \<times> int \<Rightarrow> pixel option"
  lanczos :: "image \<Rightarrow> int \<times> int \<Rightarrow> int \<times> int \<Rightarrow> pixel option"
  png_encode :: "image \<Rightarrow> nat list"
  iconutil :: "filesystem \<Rightarrow> string \<Rightarrow> string \<Rightarrow> proc"

definition Image_open :: "env \<Rightarrow> filesystem \<Rightarrow> string \<Rightarrow> error + image" where
  "Image_open E fs p = (case fs p of
       None \<Rightarrow> Inl FileNotFoundError
     | Some Dir \<Rightarrow> Inl IsADirectoryError
     | Some (File bs) \<Rightarrow>
         (case png_decode E bs of None \<Rightarrow> Inl UnidentifiedImageError | Some img \<Rightarrow> Inr img))"

definition convert :: "env \<Rightarrow> image \<Rightarrow> string \<Rightarrow> image" where
  "convert E img m = \<lparr>im_mode = m, im_size = im_size img, im_data = convert_data E img m\<rparr>"

text \<open>
  \<^verbatim>\<open>Image.resize\<close>: a request for the image's own size returns a copy, a size below one
  pixel is refused, anything else is resampled.
\<close>

definition resize :: "env \<Rightarrow> image \<Rightarrow> int \<times> int \<Rightarrow> error + image" where
  "resize E img sz =
     (if sz = im_size img then Inr img
      else if fst sz < 1 \<or> snd sz < 1 then Inl ValueError
      else Inr \<lparr>im_mode = im_mode img, im_size = sz, im_data = lanczos E img sz\<rparr>)"

definition nbands :: "string \<Rightarrow> nat" where
  "nbands m = (if m \<in> set [''1'', ''L'', ''P'', ''I'', ''F''] then 1
               else if m \<in> set [''LA'', ''PA''] then 2
               else if m \<in> set [''RGB'', ''YCbCr'', ''LAB'', ''HSV''] then 3
               else 4)"

text \<open>
  \<^verbatim>\<open>Image.crop\<close> on a box (left, upper, right, lower), the source's \<^verbatim>\<open>top\<close> and
  \<^verbatim>\<open>bottom\<close> being \<open>upper\<close> and \<open>lower\<close> here: the box is not checked against the image; the part of it that lies
  outside is filled with zeros, which in RGBA is transparent black.
\<close>

definition crop :: "image \<Rightarrow> int \<times> int \<times> int \<times> int \<Rightarrow> error + image" where
  "crop img box = (case box of (left, upper, right, lower) \<Rightarrow>
     if right < left \<or> lower < upper then Inl ValueError
     else Inr \<lparr>im_mode = im_mode img,
               im_size = (right - left, lower - upper),
               im_data = (\<lambda>xy. if in_extent (right - left, lower - upper) xy
                    then (case im_data img (fst xy + left, snd xy + upper) of
                            Some px \<Rightarrow> Some px
                          | None \<Rightarrow> Some (replicate (nbands (im_mode img)) 0))
                    else None)\<rparr>)"

definition save :: "env \<Rightarrow> filesystem \<Rightarrow> image \<Rightarrow> string \<Rightarrow> error + filesystem" where
  "save E fs img p = (case fs p of
       Some Dir \<Rightarrow> Inl IsADirectoryError
     | _ \<Rightarrow> Inr (fs(p \<mapsto> File (png_encode E img))))"

section \<open>The program\<close>

text \<open>
  The arithmetic of \<^verbatim>\<open>create_square_icon\<close>, lines 27 to 29 (the size the image is
  resized to) and lines 35 to 38 (the crop box), as functions of their own.
\<close>

definition scaled_size :: "int \<Rightarrow> int \<Rightarrow> int \<Rightarrow> error + int \<times> int" where
  "scaled_size width height sz =
     (case truediv sz (min width height) of
        Inl e \<Rightarrow> Inl e
      | Inr scale \<Rightarrow>
          (let new_width = int_of_float (int_mul_float width scale);
               new_height = int_of_float (int_mul_float height scale)
           in Inr (new_width, new_height)))"

definition crop_box :: "int \<Rightarrow> int \<Rightarrow> int \<Rightarrow> int \<times> int \<times> int \<times> int" where
  "crop_box new_width new_height sz =
     (let left = (new_width - sz) div 2;
          upper = (new_height - sz) div 2;
          right = left + sz;
          lower = upper + sz
      in (left, upper, right, lower))"

text \<open>
  \<^verbatim>\<open>create_square_icon(source_path, output_dir, size)\<close>. The filesystem is threaded
  through and returned, so that what the function writes can be stated.
\<close>

definition create_square_icon ::
  "env \<Rightarrow> filesystem \<Rightarrow> string \<Rightarrow> string \<Rightarrow> int \<Rightarrow> filesystem \<times> (error + image)" where
  "create_square_icon E fs source_path output_dir sz =
     (case Image_open E fs source_path of
        Inl e \<Rightarrow> (fs, Inl e)
      | Inr img0 \<Rightarrow>
          (let img = (if im_mode img0 \<noteq> ''RGBA'' then convert E img0 ''RGBA'' else img0);
               width = fst (im_size img);
               height = snd (im_size img)
           in case scaled_size width height sz of
                Inl e \<Rightarrow> (fs, Inl e)
              | Inr (new_width, new_height) \<Rightarrow>
                  (case resize E img (new_width, new_height) of
                     Inl e \<Rightarrow> (fs, Inl e)
                   | Inr resized \<Rightarrow>
                       (case crop resized (crop_box new_width new_height sz) of
                          Inl e \<Rightarrow> (fs, Inl e)
                        | Inr square \<Rightarrow> (fs, Inr square)))))"

definition sizes :: "(int \<times> string) list" where
  "sizes =
     [(16, ''icon_16x16.png''),
      (32, ''icon_16x16@2x.png''),
      (32, ''icon_32x32.png''),
      (64, ''icon_32x32@2x.png''),
      (128, ''icon_128x128.png''),
      (256, ''icon_128x128@2x.png''),
      (256, ''icon_256x256.png''),
      (512, ''icon_256x256@2x.png''),
      (512, ''icon_512x512.png''),
      (1024, ''icon_512x512@2x.png'')]"

text \<open>The \<^verbatim>\<open>for size, filename in sizes\<close> loop of \<^verbatim>\<open>generate_iconset\<close>.\<close>

fun write_variants ::
  "env \<Rightarrow> filesystem \<Rightarrow> image \<Rightarrow> string \<Rightarrow> (int \<times> string) list \<Rightarrow> filesystem \<times> (error + unit)" where
  "write_variants E fs base_icon iconset_dir [] = (fs, Inr ())"
| "write_variants E fs base_icon iconset_dir ((s, filename) # rest) =
     (case resize E base_icon (s, s) of
        Inl e \<Rightarrow> (fs, Inl e)
      | Inr resized \<Rightarrow>
          (case save E fs resized (join iconset_dir filename) of
             Inl e \<Rightarrow> (fs, Inl e)
           | Inr fs' \<Rightarrow> write_variants E fs' base_icon iconset_dir rest))"

definition generate_iconset ::
  "env \<Rightarrow> filesystem \<Rightarrow> string \<Rightarrow> string \<Rightarrow> filesystem \<times> (error + string)" where
  "generate_iconset E fs source_path output_dir =
     (let iconset_dir = join output_dir ''AppIcon.iconset''
      in case makedirs fs iconset_dir of
           Inl e \<Rightarrow> (fs, Inl e)
         | Inr fs1 \<Rightarrow>
             (case create_square_icon E fs1 source_path output_dir 1024 of
                (fs2, Inl e) \<Rightarrow> (fs2, Inl e)
              | (fs2, Inr base_icon) \<Rightarrow>
                  (case write_variants E fs2 base_icon iconset_dir sizes of
                     (fs3, Inl e) \<Rightarrow> (fs3, Inl e)
                   | (fs3, Inr u) \<Rightarrow> (fs3, Inr iconset_dir))))"

text \<open>
  \<^verbatim>\<open>create_icns\<close>: \<^verbatim>\<open>True\<close> exactly when the command ran and returned 0; every
  exception of the invocation is caught and answered with \<^verbatim>\<open>False\<close>.
\<close>

definition create_icns :: "env \<Rightarrow> filesystem \<Rightarrow> string \<Rightarrow> string \<Rightarrow> filesystem \<times> bool" where
  "create_icns E fs iconset_dir output_path =
     (case iconutil E fs iconset_dir output_path of
        Raised e \<Rightarrow> (fs, False)
      | Completed returncode out \<Rightarrow>
          (let fs' = (case out of None \<Rightarrow> fs | Some bs \<Rightarrow> fs(output_path \<mapsto> File bs))
           in if returncode = 0 then (fs', True) else (fs', False)))"

text \<open>
  How a run ends: \<^verbatim>\<open>sys.exit(n)\<close> or the end of \<^verbatim>\<open>main\<close>, or an exception nobody
  catches, on which the interpreter exits with status 1.
\<close>

datatype status = Exit int | Uncaught error

definition exit_code :: "status \<Rightarrow> int" where
  "exit_code st = (case st of Exit n \<Rightarrow> n | Uncaught e \<Rightarrow> 1)"

text \<open>\<^verbatim>\<open>main\<close>, with the directory of the script as its argument. Printing is left out.\<close>

definition main :: "env \<Rightarrow> filesystem \<Rightarrow> string \<Rightarrow> filesystem \<times> status" where
  "main E fs script_dir =
     (let source_icon = join (join script_dir ''icon'') ''app_icon.png''
      in if \<not> path_exists fs source_icon then (fs, Exit 1)
         else case generate_iconset E fs source_icon script_dir of
                (fs1, Inl e) \<Rightarrow> (fs1, Uncaught e)
              | (fs1, Inr iconset_dir) \<Rightarrow>
                  (let icns_output =
                         join (join (join (join script_dir ''Amirror.app'') ''Contents'')
                                 ''Resources'') ''AppIcon.icns''
                   in case makedirs fs1 (dirname icns_output) of
                        Inl e \<Rightarrow> (fs1, Uncaught e)
                      | Inr fs2 \<Rightarrow>
                          (case create_icns E fs2 iconset_dir icns_output of
                             (fs3, True) \<Rightarrow>
                               (case rmtree fs3 iconset_dir of
                                  Inl e \<Rightarrow> (fs3, Uncaught e)
                                | Inr fs4 \<Rightarrow> (fs4, Exit 0))
                           | (fs3, False) \<Rightarrow> (fs3, Exit 1))))"

section \<open>What \<^verbatim>\<open>create_square_icon\<close> does with its arguments\<close>

text \<open>
  Claim C10. The \<^verbatim>\<open>output_dir\<close> parameter of \<^verbatim>\<open>create_square_icon\<close> is accepted and
  never used: for every source path, edge length and filesystem, any two values of it give
  the same result, and the function returns the filesystem as it found it, so it writes
  nothing.
\<close>

theorem output_dir_unused:
  "create_square_icon E fs source_path d1 sz = create_square_icon E fs source_path d2 sz
   \<and> fst (create_square_icon E fs source_path d1 sz) = fs"
  by (simp add: create_square_icon_def Let_def split: sum.split prod.split)

end
